theory Spec2Isabelle
  imports Complex_Main
begin

section \<open>Simulated NIRS signal generator (app.py)\<close>

text \<open>
  The script app.py computes, on a button press, a time vector, two simulated
  haemoglobin channels and a scalar index from three sidebar inputs. The model
  below follows the script line by line. Arrays are lists of reals, so the
  arithmetic is the exact real arithmetic that the double precision computation
  of the script approximates: what is proved below is proved of that exact
  arithmetic, and an equation between two differently rounded double results is
  outside the model. The draws of \<open>np.random.randn\<close> are an explicit
  argument \<open>z\<close>: draw number \<open>i\<close> of the call is \<open>z i\<close>. Exceptions are values
  of type \<open>error\<close>.
\<close>

datatype error = ValueError | KeyError

subsection \<open>The numpy operations the script calls\<close>

text \<open>
  \<open>np.linspace(start, stop, num)\<close>: a negative \<open>num\<close> raises ValueError; otherwise
  \<open>num\<close> points \<open>start + i * step\<close> with \<open>step = (stop - start) / (num - 1)\<close>, and
  for \<open>num > 1\<close> the last point is overwritten with \<open>stop\<close>.
\<close>

definition linspace_pts :: "real \<Rightarrow> real \<Rightarrow> nat \<Rightarrow> real list" where
  "linspace_pts start stop n =
     (if n \<le> 1 then replicate n start
      else (map (\<lambda>i. start + real i * ((stop - start) / real (n - 1))) [0..<n])
             [n - 1 := stop])"

definition linspace :: "real \<Rightarrow> real \<Rightarrow> int \<Rightarrow> error + real list" where
  "linspace start stop num =
     (if num < 0 then Inl ValueError else Inr (linspace_pts start stop (nat num)))"

text \<open>
  \<open>np.convolve(a, v, mode)\<close>: the full discrete convolution
  \<open>(a * v)[n] = \<Sum>m. a[m] * v[n - m]\<close> has \<open>len a + len v - 1\<close> entries; mode
  "same" returns the \<open>max (len a) (len v)\<close> entries in its centre, which start at
  offset \<open>(min (len a) (len v) - 1) div 2\<close>. An empty argument raises ValueError.
\<close>

definition convolve_full :: "real list \<Rightarrow> real list \<Rightarrow> real list" where
  "convolve_full a v =
     map (\<lambda>n. \<Sum>m\<leftarrow>[0..<length a].
                 if m \<le> n \<and> n - m < length v then a ! m * v ! (n - m) else 0)
         [0..<length a + length v - 1]"

definition convolve_same :: "real list \<Rightarrow> real list \<Rightarrow> error + real list" where
  "convolve_same a v =
     (if a = [] \<or> v = [] then Inl ValueError
      else Inr (take (max (length a) (length v))
                  (drop ((min (length a) (length v) - 1) div 2) (convolve_full a v))))"

text \<open>\<open>np.random.randn(n)\<close>: the first \<open>n\<close> draws of the call.\<close>

definition randn :: "(nat \<Rightarrow> real) \<Rightarrow> nat \<Rightarrow> real list" where
  "randn z n = map z [0..<n]"

text \<open>\<open>np.mean\<close> of a one-dimensional array.\<close>

definition mean :: "real list \<Rightarrow> real" where
  "mean xs = sum_list xs / real (length xs)"

subsection \<open>Haemodynamic response function\<close>

definition hrf_gen :: "real \<Rightarrow> nat \<Rightarrow> nat \<Rightarrow> real \<Rightarrow> real" where
  "hrf_gen t peak under' ratio =
     (t ^ peak * exp (- t)) / fact peak - ratio * (t ^ under' * exp (- t)) / fact under'"

text \<open>The call \<open>hrf(t)\<close> with the defaults \<open>peak=6, under=16, ratio=0.166\<close>.\<close>

definition hrf :: "real \<Rightarrow> real" where
  "hrf t = hrf_gen t 6 16 0.166"

subsection \<open>Task parameters\<close>

record task_profile =
  amp :: real
  freq :: real

definition task_params :: "string \<rightharpoonup> task_profile" where
  "task_params = map_of
     [(''Resting State'', \<lparr>amp = 0.2, freq = 0.1\<rparr>),
      (''Visual Task'', \<lparr>amp = 1.0, freq = 0.25\<rparr>),
      (''Language Task'', \<lparr>amp = 0.8, freq = 0.2\<rparr>),
      (''Motor Task'', \<lparr>amp = 1.2, freq = 0.3\<rparr>),
      (''Cognitive Test'', \<lparr>amp = 1.5, freq = 0.35\<rparr>)]"

definition task_names :: "string list" where
  "task_names = [''Resting State'', ''Visual Task'', ''Language Task'', ''Motor Task'',
                 ''Cognitive Test'']"

subsection \<open>Simulation\<close>

text \<open>
  The number of samples \<open>duration * 20\<close> is a multiple of 20. With no sample the
  convolution raises; otherwise there are at least 20, the convolution of the kernel
  of length 5 with \<open>base_hrf\<close> has the length of \<open>t\<close> (lemma \<open>smoothed_hrf_length\<close>
  below), and every elementwise operation of the script combines arrays of that one
  length: it is \<open>map2\<close>. The second call of \<open>np.linspace\<close> gets the count
  \<open>len(t)\<close>, which is not negative, so it cannot raise.
\<close>

definition base_hrf :: "nat \<Rightarrow> real list" where
  "base_hrf n = map hrf (linspace_pts 0 30 n)"

definition smoothed_hrf :: "nat \<Rightarrow> error + real list" where
  "smoothed_hrf n = convolve_same (replicate 5 (1 / 5)) (base_hrf n)"

definition signal0 :: "task_profile \<Rightarrow> real list \<Rightarrow> real list \<Rightarrow> real list" where
  "signal0 params t sm = map2 (+) (map (\<lambda>x. amp params * sin (2 * pi * freq params * x)) t) sm"

definition add_noise :: "real list \<Rightarrow> real \<Rightarrow> real list \<Rightarrow> real list" where
  "add_noise signal noise_level draws = map2 (+) signal (map (\<lambda>d. noise_level * d) draws)"

text \<open>
  Lines 71 and 72 of the script. In the script each product and each sum of these
  two lines is rounded to a double; here they are exact, so an identity between
  the two channels that rests on the exact cancellation of the signal is a fact of
  this model only and is not stated of the script.
\<close>

definition oxy_of :: "real list \<Rightarrow> real list \<Rightarrow> real list" where
  "oxy_of signal t = map2 (+) signal (map (\<lambda>x. 0.5 * sin (0.1 * pi * x)) t)"

definition deoxy_of :: "real list \<Rightarrow> real list \<Rightarrow> real list" where
  "deoxy_of signal t =
     map2 (+) (map (\<lambda>s. - 0.6 * s) signal) (map (\<lambda>x. 0.2 * sin (0.1 * pi * x)) t)"

definition coi_denominator :: "real list \<Rightarrow> real list \<Rightarrow> real" where
  "coi_denominator oxy deoxy = mean oxy + \<bar>mean deoxy\<bar> + 1 / 100000"

text \<open>
  Division of two finite \<open>np.float64\<close> values raises nothing: a zero divisor gives
  \<open>inf\<close>, \<open>-inf\<close> or \<open>nan\<close> (with a warning), by the sign of the dividend.
\<close>

datatype np_float = Finite real | PosInf | NegInf | NaN

definition np_divide :: "real \<Rightarrow> real \<Rightarrow> np_float" where
  "np_divide x y =
     (if y \<noteq> 0 then Finite (x / y)
      else if 0 < x then PosInf
      else if x < 0 then NegInf
      else NaN)"

definition coi_of :: "real list \<Rightarrow> real list \<Rightarrow> np_float" where
  "coi_of oxy deoxy = np_divide (mean oxy) (coi_denominator oxy deoxy)"

record simulation =
  time :: "real list"
  oxy :: "real list"
  deoxy :: "real list"
  coi :: np_float

definition simulate :: "string \<Rightarrow> int \<Rightarrow> real \<Rightarrow> (nat \<Rightarrow> real) \<Rightarrow> error + simulation" where
  "simulate task duration noise_level z =
     (case linspace 0 (real_of_int duration) (duration * 20) of
        Inl e \<Rightarrow> Inl e
      | Inr t \<Rightarrow>
          (case task_params task of
             None \<Rightarrow> Inl KeyError
           | Some params \<Rightarrow>
               (case smoothed_hrf (length t) of
                  Inl e \<Rightarrow> Inl e
                | Inr sm \<Rightarrow>
                    let signal = add_noise (signal0 params t sm) noise_level
                                   (randn z (length t));
                        ox = oxy_of signal t;
                        de = deoxy_of signal t
                    in Inr \<lparr>time = t, oxy = ox, deoxy = de, coi = coi_of ox de\<rparr>)))"

subsection \<open>Interpretation of the index\<close>

datatype oxygenation = HighOxygenation | ModerateOxygenation | LowOxygenation

definition classify :: "real \<Rightarrow> oxygenation" where
  "classify c =
     (if c > 0.55 then HighOxygenation
      else if c > 0.45 then ModerateOxygenation
      else LowOxygenation)"

subsection \<open>Reading a list at an integer index, zero outside its range\<close>

definition tap :: "real list \<Rightarrow> int \<Rightarrow> real" where
  "tap xs j = (if 0 \<le> j \<and> j < int (length xs) then xs ! nat j else 0)"

subsection \<open>The smoothing as the specification words it\<close>

text \<open>
  The grid of \<open>n\<close> evenly spaced points of \<open>[0, 30]\<close>, and the centred moving
  average of length 5 of the response function on it, with zero for the taps
  outside the range. These are written from the words of the specification, not
  from the calls of the script, to be compared with what the run computes.
\<close>

definition spec_grid :: "nat \<Rightarrow> real list" where
  "spec_grid n = map (\<lambda>j. real j * (30 / real (n - 1))) [0..<n]"

definition spec_smoothed :: "nat \<Rightarrow> nat \<Rightarrow> real" where
  "spec_smoothed n i =
     (1 / 5) * (\<Sum>k\<leftarrow>[- 2, - 1, 0, 1, 2]. tap (map hrf (spec_grid n)) (int i + k))"

subsection \<open>A run with the same draw for every sample\<close>

text \<open>
  \<open>drift_mean d\<close> is the mean of the drift \<open>sin(0.1 \<pi> t)\<close> over the time vector of
  a run of \<open>d\<close> seconds, \<open>oxy_mean0 p d\<close> the mean of the oxygenated channel of the
  run without noise. Drawing \<open>draw_for_mean p d nl m\<close> for every sample gives a run
  whose oxygenated channel has mean \<open>m\<close> (lemma \<open>const_run\<close>).
\<close>

definition const_draws :: "real \<Rightarrow> nat \<Rightarrow> real" where
  "const_draws c i = c"

definition drift_mean :: "int \<Rightarrow> real" where
  "drift_mean d =
     mean (map (\<lambda>x. sin (0.1 * pi * x)) (linspace_pts 0 (real_of_int d) (nat (d * 20))))"

definition oxy_mean0 :: "task_profile \<Rightarrow> int \<Rightarrow> real" where
  "oxy_mean0 p d =
     mean (oxy_of (signal0 p (linspace_pts 0 (real_of_int d) (nat (d * 20)))
                     (projr (smoothed_hrf (nat (d * 20)))))
                  (linspace_pts 0 (real_of_int d) (nat (d * 20))))"

definition draw_for_mean :: "task_profile \<Rightarrow> int \<Rightarrow> real \<Rightarrow> real \<Rightarrow> real" where
  "draw_for_mean p d nl m = (m - oxy_mean0 p d) / nl"

section \<open>Auxiliary facts\<close>

subsection \<open>Grids and the moving average\<close>

lemma linspace_pts_length: "length (linspace_pts a b n) = n"
  by (simp add: linspace_pts_def)

lemma linspace_pts_nth:
  assumes "1 < n" "i < n"
  shows "linspace_pts a b n ! i = a + real i * ((b - a) / real (n - 1))"
proof (cases "i = n - 1")
  case True
  have "real (n - 1) \<noteq> 0" using assms by simp
  then have "a + real (n - 1) * ((b - a) / real (n - 1)) = b" by simp
  with True assms show ?thesis by (simp add: linspace_pts_def)
next
  case False
  with assms show ?thesis by (simp add: linspace_pts_def)
qed

lemma linspace_pts_bounds:
  assumes "a \<le> b" "x \<in> set (linspace_pts a b n)"
  shows "a \<le> x \<and> x \<le> b"
proof (cases "n \<le> 1")
  case True
  with assms show ?thesis by (auto simp: linspace_pts_def)
next
  case False
  then have n: "1 < n" by simp
  from assms(2) obtain i where i: "i < n" "x = linspace_pts a b n ! i"
    by (auto simp: in_set_conv_nth linspace_pts_length)
  have x: "x = a + real i * ((b - a) / real (n - 1))"
    using i n by (simp add: linspace_pts_nth)
  define q where "q = (b - a) / real (n - 1)"
  have q0: "0 \<le> q" using assms(1) by (simp add: q_def)
  have "real i \<le> real (n - 1)" using i n by simp
  then have "real i * q \<le> real (n - 1) * q" using q0 by (rule mult_right_mono)
  moreover have "real (n - 1) * q = b - a" using n by (simp add: q_def)
  moreover have "0 \<le> real i * q" using q0 by simp
  moreover have "x = a + real i * q" using x by (simp add: q_def)
  ultimately show ?thesis by linarith
qed

lemma convolve_full_length: "length (convolve_full a v) = length a + length v - 1"
  by (simp add: convolve_full_def)

lemma convolve_full_nth:
  "n < length a + length v - 1 \<Longrightarrow>
   convolve_full a v ! n =
     (\<Sum>m\<leftarrow>[0..<length a]. if m \<le> n \<and> n - m < length v then a ! m * v ! (n - m) else 0)"
  by (simp add: convolve_full_def cong: if_cong)

lemma upt5: "[0..<5] = [0, 1, 2, 3, 4]"
  by (simp add: upt_rec)

lemma uniform5_same:
  assumes "5 \<le> length v"
  shows "\<exists>sm. convolve_same (replicate 5 (1 / 5)) v = Inr sm \<and> length sm = length v \<and>
     (\<forall>i<length v. sm ! i = (1 / 5) * (tap v (int i - 2) + tap v (int i - 1) + tap v (int i)
          + tap v (int i + 1) + tap v (int i + 2)))"
proof -
  let ?k = "replicate 5 (1 / 5 :: real)"
  let ?sm = "take (length v) (drop 2 (convolve_full ?k v))"
  have ne: "v \<noteq> []" using assms by auto
  have cs: "convolve_same ?k v = Inr ?sm"
    using assms ne by (simp add: convolve_same_def max_def min_def)
  have len: "length ?sm = length v"
    using assms by (simp add: convolve_full_length)
  have nth: "?sm ! i = (1 / 5) * (tap v (int i - 2) + tap v (int i - 1) + tap v (int i)
          + tap v (int i + 1) + tap v (int i + 2))" if "i < length v" for i
  proof -
    have "?sm ! i = convolve_full ?k v ! (i + 2)"
      using that assms by (simp add: convolve_full_length add.commute)
    also have "\<dots> = (\<Sum>m\<leftarrow>[0..<5]. if m \<le> i + 2 \<and> i + 2 - m < length v
                          then ?k ! m * v ! (i + 2 - m) else 0)"
      using that assms by (simp add: convolve_full_nth cong: if_cong)
    also have "\<dots> = (1 / 5) * (tap v (int i - 2) + tap v (int i - 1) + tap v (int i)
          + tap v (int i + 1) + tap v (int i + 2))"
      using that by (auto simp: upt5 tap_def nat_diff_distrib nat_add_distrib algebra_simps Suc_diff_le)
    finally show ?thesis .
  qed
  show ?thesis using cs len nth by blast
qed

lemma base_hrf_length: "length (base_hrf n) = n"
  by (simp add: base_hrf_def linspace_pts_length)

lemma base_hrf_nth: "i < n \<Longrightarrow> base_hrf n ! i = hrf (linspace_pts 0 30 n ! i)"
  by (simp add: base_hrf_def linspace_pts_length)

lemma smoothed_hrf_Inr:
  assumes "5 \<le> n"
  shows "\<exists>sm. smoothed_hrf n = Inr sm \<and> length sm = n \<and>
     (\<forall>i<n. sm ! i = (1 / 5) * (tap (base_hrf n) (int i - 2) + tap (base_hrf n) (int i - 1)
          + tap (base_hrf n) (int i) + tap (base_hrf n) (int i + 1) + tap (base_hrf n) (int i + 2)))"
  using uniform5_same [of "base_hrf n"] assms
  by (simp add: smoothed_hrf_def base_hrf_length)

lemma smoothed_hrf_length: "smoothed_hrf n = Inr sm \<Longrightarrow> 5 \<le> n \<Longrightarrow> length sm = n"
  using smoothed_hrf_Inr [of n] by auto

lemma fact6: "fact 6 = (720 :: real)"
  by (simp add: fact_numeral)

lemma fact16: "fact 16 = (20922789888000 :: real)"
  by (simp add: fact_numeral)

subsection \<open>The run on valid inputs\<close>

lemma task_params_Some: "(\<exists>p. task_params task = Some p) \<longleftrightarrow> task \<in> set task_names"
  by (simp add: task_params_def task_names_def)

lemma task_params_None: "task_params task = None \<longleftrightarrow> task \<notin> set task_names"
  by (simp add: task_params_def task_names_def)

lemma simulate_Inr:
  assumes "task_params task = Some p" "0 \<le> d" "smoothed_hrf (nat (d * 20)) = Inr sm"
  shows "simulate task d nl z =
     Inr \<lparr>time = linspace_pts 0 (real_of_int d) (nat (d * 20)),
          oxy = oxy_of (add_noise (signal0 p (linspace_pts 0 (real_of_int d) (nat (d * 20))) sm) nl
                         (randn z (nat (d * 20))))
                  (linspace_pts 0 (real_of_int d) (nat (d * 20))),
          deoxy = deoxy_of (add_noise (signal0 p (linspace_pts 0 (real_of_int d) (nat (d * 20))) sm) nl
                         (randn z (nat (d * 20))))
                  (linspace_pts 0 (real_of_int d) (nat (d * 20))),
          coi = coi_of
             (oxy_of (add_noise (signal0 p (linspace_pts 0 (real_of_int d) (nat (d * 20))) sm) nl
                         (randn z (nat (d * 20))))
                  (linspace_pts 0 (real_of_int d) (nat (d * 20))))
             (deoxy_of (add_noise (signal0 p (linspace_pts 0 (real_of_int d) (nat (d * 20))) sm) nl
                         (randn z (nat (d * 20))))
                  (linspace_pts 0 (real_of_int d) (nat (d * 20))))\<rparr>"
  using assms by (simp add: simulate_def linspace_def linspace_pts_length Let_def)

lemma simulate_coi:
  "simulate task d nl z = Inr r \<Longrightarrow> coi r = coi_of (oxy r) (deoxy r)"
  by (auto simp: simulate_def Let_def split: sum.splits option.splits)

lemma signal0_length: "length t = n \<Longrightarrow> length sm = n \<Longrightarrow> length (signal0 p t sm) = n"
  by (simp add: signal0_def)

lemma randn_length: "length (randn z n) = n"
  by (simp add: randn_def)

lemma add_noise_length: "length s = n \<Longrightarrow> length ds = n \<Longrightarrow> length (add_noise s nl ds) = n"
  by (simp add: add_noise_def)

lemma oxy_of_length: "length s = n \<Longrightarrow> length t = n \<Longrightarrow> length (oxy_of s t) = n"
  by (simp add: oxy_of_def)

lemma deoxy_of_length: "length s = n \<Longrightarrow> length t = n \<Longrightarrow> length (deoxy_of s t) = n"
  by (simp add: deoxy_of_def)

lemmas gen_lengths = linspace_pts_length signal0_length randn_length add_noise_length
  oxy_of_length deoxy_of_length

lemma signal0_nth:
  "i < length t \<Longrightarrow> length sm = length t \<Longrightarrow>
   signal0 p t sm ! i = amp p * sin (2 * pi * freq p * t ! i) + sm ! i"
  by (simp add: signal0_def)

lemma add_noise_nth:
  "i < length s \<Longrightarrow> length ds = length s \<Longrightarrow> add_noise s nl ds ! i = s ! i + nl * ds ! i"
  by (simp add: add_noise_def)

lemma add_noise_zero: "length ds = length s \<Longrightarrow> add_noise s 0 ds = s"
  by (simp add: add_noise_def list_eq_iff_nth_eq)

lemma oxy_of_nth:
  "i < length s \<Longrightarrow> length t = length s \<Longrightarrow>
   oxy_of s t ! i = s ! i + 0.5 * sin (0.1 * pi * t ! i)"
  by (simp add: oxy_of_def)

lemma deoxy_of_nth:
  "i < length s \<Longrightarrow> length t = length s \<Longrightarrow>
   deoxy_of s t ! i = - 0.6 * s ! i + 0.2 * sin (0.1 * pi * t ! i)"
  by (simp add: deoxy_of_def)

lemma valid_setup:
  assumes "5 \<le> d" "task \<in> set task_names"
  shows "\<exists>p sm. task_params task = Some p \<and> smoothed_hrf (nat (d * 20)) = Inr sm \<and>
           length sm = nat (d * 20) \<and> 0 \<le> d \<and> 100 \<le> nat (d * 20)"
proof -
  from assms(2) obtain p where p: "task_params task = Some p"
    using task_params_Some by blast
  have n: "5 \<le> nat (d * 20)" using assms(1) by simp
  then obtain sm where sm: "smoothed_hrf (nat (d * 20)) = Inr sm" "length sm = nat (d * 20)"
    using smoothed_hrf_Inr by blast
  show ?thesis using p sm assms(1) by simp
qed

subsection \<open>Means of the channels\<close>

lemma sum_list_map2_add:
  "length xs = length ys \<Longrightarrow> sum_list (map2 (+) xs ys) = sum_list xs + (sum_list ys :: real)"
  by (induction xs ys rule: list_induct2) simp_all

lemma mean_map2_add:
  "length xs = length ys \<Longrightarrow> mean (map2 (+) xs ys) = mean xs + mean ys"
  by (simp add: mean_def sum_list_map2_add add_divide_distrib)

lemma mean_scale: "mean (map (\<lambda>x. c * f x) xs) = c * mean (map f xs)"
  by (simp add: mean_def sum_list_const_mult)

lemma mean_scale_id: "mean (map (\<lambda>x. c * x) xs) = c * mean xs"
  using mean_scale [of c "\<lambda>x. x" xs] by simp

lemma mean_const: "0 < n \<Longrightarrow> mean (map (\<lambda>_. c) [0..<n]) = c"
  by (simp add: mean_def sum_list_triv)

lemma mean_oxy_of:
  assumes "length s = length t"
  shows "mean (oxy_of s t) = mean s + 0.5 * mean (map (\<lambda>x. sin (0.1 * pi * x)) t)"
proof -
  have "mean (oxy_of s t) = mean s + mean (map (\<lambda>x. 0.5 * sin (0.1 * pi * x)) t)"
    unfolding oxy_of_def using assms by (intro mean_map2_add) simp
  also have "mean (map (\<lambda>x. 0.5 * sin (0.1 * pi * x)) t)
           = 0.5 * mean (map (\<lambda>x. sin (0.1 * pi * x)) t)"
    by (rule mean_scale)
  finally show ?thesis .
qed

lemma mean_deoxy_of:
  assumes "length s = length t"
  shows "mean (deoxy_of s t) = - 0.6 * mean s + 0.2 * mean (map (\<lambda>x. sin (0.1 * pi * x)) t)"
proof -
  have "mean (deoxy_of s t)
      = mean (map (\<lambda>s. - 0.6 * s) s) + mean (map (\<lambda>x. 0.2 * sin (0.1 * pi * x)) t)"
    unfolding deoxy_of_def using assms by (intro mean_map2_add) simp
  also have "mean (map (\<lambda>s. - 0.6 * s) s) = - 0.6 * mean s"
    by (rule mean_scale_id)
  also have "mean (map (\<lambda>x. 0.2 * sin (0.1 * pi * x)) t)
           = 0.2 * mean (map (\<lambda>x. sin (0.1 * pi * x)) t)"
    by (rule mean_scale)
  finally show ?thesis .
qed

lemma mean_add_noise_const:
  "length s = n \<Longrightarrow> 0 < n \<Longrightarrow>
   mean (add_noise s nl (randn (const_draws c) n)) = mean s + nl * c"
proof -
  assume a: "length s = n" "0 < n"
  have "randn (const_draws c) n = map (\<lambda>_. c) [0..<n]"
    by (simp add: randn_def const_draws_def)
  then have "mean (add_noise s nl (randn (const_draws c) n))
           = mean s + mean (map (\<lambda>d. nl * d) (map (\<lambda>_. c) [0..<n]))"
    using a by (simp add: add_noise_def mean_map2_add)
  also have "mean (map (\<lambda>d. nl * d) (map (\<lambda>_. c) [0..<n])) = nl * c"
    using a(2) mean_scale_id [of nl "map (\<lambda>_. c) [0..<n]"] by (simp add: mean_const)
  finally show ?thesis .
qed

lemma randn_nth: "i < n \<Longrightarrow> randn z n ! i = z i"
  by (simp add: randn_def)

lemma linspace_spec_grid: "1 < n \<Longrightarrow> linspace_pts 0 30 n = spec_grid n"
  by (simp add: list_eq_iff_nth_eq linspace_pts_length linspace_pts_nth spec_grid_def)

lemma smoothed_hrf_spec:
  assumes "5 \<le> n" "smoothed_hrf n = Inr sm" "i < n"
  shows "sm ! i = spec_smoothed n i"
proof -
  have b: "base_hrf n = map hrf (spec_grid n)"
    using assms(1) by (simp add: base_hrf_def linspace_spec_grid)
  from smoothed_hrf_Inr [OF assms(1)] assms(2,3)
  have "sm ! i = (1 / 5) * (tap (base_hrf n) (int i - 2) + tap (base_hrf n) (int i - 1)
          + tap (base_hrf n) (int i) + tap (base_hrf n) (int i + 1) + tap (base_hrf n) (int i + 2))"
    by auto
  then show ?thesis by (simp add: spec_smoothed_def b)
qed

lemma const_run:
  assumes "task_params task = Some p" "1 \<le> d" "nl \<noteq> 0"
  shows "\<exists>r. simulate task d nl (const_draws (draw_for_mean p d nl m)) = Inr r \<and>
       mean (oxy r) = m \<and> mean (deoxy r) = - 0.6 * m + 0.5 * drift_mean d"
proof -
  let ?n = "nat (d * 20)"
  let ?t = "linspace_pts 0 (real_of_int d) ?n"
  have n5: "5 \<le> ?n" and n0: "0 < ?n" and d0: "0 \<le> d" using assms(2) by simp_all
  obtain sm where sm: "smoothed_hrf ?n = Inr sm" "length sm = ?n"
    using smoothed_hrf_Inr [OF n5] by auto
  let ?sig = "signal0 p ?t sm"
  let ?noisy = "add_noise ?sig nl (randn (const_draws (draw_for_mean p d nl m)) ?n)"
  have l0: "length ?sig = ?n" using sm(2) by (simp add: gen_lengths)
  have ls: "length ?noisy = ?n" using l0 by (simp add: gen_lengths)
  have lt: "length ?t = ?n" by (rule linspace_pts_length)
  have "projr (smoothed_hrf ?n) = sm" using sm(1) by simp
  then have "oxy_mean0 p d = mean (oxy_of ?sig ?t)"
    by (simp only: oxy_mean0_def)
  also have "\<dots> = mean ?sig + 0.5 * drift_mean d"
    unfolding drift_mean_def using l0 lt by (intro mean_oxy_of) simp
  finally have m0: "oxy_mean0 p d = mean ?sig + 0.5 * drift_mean d" .
  have "nl * draw_for_mean p d nl m = m - oxy_mean0 p d"
    using assms(3) by (simp add: draw_for_mean_def)
  then have ms: "mean ?noisy = mean ?sig + (m - oxy_mean0 p d)"
    using mean_add_noise_const [OF l0 n0, of nl "draw_for_mean p d nl m"] by simp
  have mo: "mean (oxy_of ?noisy ?t) = mean ?noisy + 0.5 * drift_mean d"
    unfolding drift_mean_def using ls lt by (intro mean_oxy_of) simp
  have md: "mean (deoxy_of ?noisy ?t) = - 0.6 * mean ?noisy + 0.2 * drift_mean d"
    unfolding drift_mean_def using ls lt by (intro mean_deoxy_of) simp
  have o: "mean (oxy_of ?noisy ?t) = m"
    using mo ms m0 by linarith
  have de: "mean (deoxy_of ?noisy ?t) = - 0.6 * m + 0.5 * drift_mean d"
    using md ms m0 by linarith
  show ?thesis
    unfolding simulate_Inr [OF assms(1) d0 sm(1)] using o de by simp
qed

lemma sin_sum_full_period:
  "(\<Sum>i<Suc n. sin (2 * pi * real i / real n)) = 0"
proof (cases "n = 0")
  case True
  then show ?thesis by simp
next
  case False
  let ?g = "\<lambda>i. sin (2 * pi * real i / real n)"
  have "?g (Suc n - Suc i) = - ?g i" if "i < Suc n" for i
  proof -
    have "real (Suc n - Suc i) = real n - real i" using that by simp
    then have "2 * pi * real (Suc n - Suc i) / real n = 2 * pi - 2 * pi * real i / real n"
      using False by (simp add: field_simps)
    then show ?thesis by (simp add: sin_2pi_minus)
  qed
  then have "(\<Sum>i<Suc n. ?g (Suc n - Suc i)) = (\<Sum>i<Suc n. - ?g i)"
    by (intro sum.cong) auto
  moreover have "(\<Sum>i<Suc n. ?g (Suc n - Suc i)) = (\<Sum>i<Suc n. ?g i)"
    by (rule sum.nat_diff_reindex)
  ultimately have "(\<Sum>i<Suc n. ?g i) = - (\<Sum>i<Suc n. ?g i)"
    by (simp add: sum_negf)
  then show ?thesis by simp
qed

lemma drift_mean_20: "drift_mean 20 = 0"
proof -
  have "map (\<lambda>x. sin (0.1 * pi * x)) (linspace_pts 0 20 400)
      = map (\<lambda>i. sin (2 * pi * real i / real (399::nat))) [0..<400]"
    by (simp add: list_eq_iff_nth_eq linspace_pts_length linspace_pts_nth field_simps)
  moreover have "sum_list (map (\<lambda>i. sin (2 * pi * real i / real (399::nat))) [0..<400])
      = (\<Sum>i<Suc 399. sin (2 * pi * real i / real (399::nat)))"
    by (simp add: interv_sum_list_conv_sum_set_nat atLeast0LessThan)
  ultimately have "sum_list (map (\<lambda>x. sin (0.1 * pi * x)) (linspace_pts 0 20 400)) = 0"
    using sin_sum_full_period [of 399] by simp
  then show ?thesis by (simp add: drift_mean_def mean_def)
qed


section \<open>Properties of the generator\<close>

subsection \<open>C1\<close>

text \<open>
  C1 says that the index is finite for every input, because the added \<open>1e-5\<close>
  keeps the denominator \<open>mean(oxy) + |mean(deoxy)| + 1e-5\<close> away from zero. The
  script takes the absolute value of the mean of deoxy only, so the guard covers
  the case where both means are zero but not a negative mean of oxy: for the task
  "Resting State", 20 seconds and noise level 0.5 there are draws for which the run
  returns a result, the mean of oxy is negative, the denominator is zero and the
  index is \<open>-inf\<close>. Over 20 seconds the drift has mean zero (lemma
  \<open>drift_mean_20\<close>), so the mean of deoxy is \<open>-0.6\<close> times the mean of oxy and the
  denominator vanishes where the mean of oxy is \<open>-2.5e-5\<close>; the proof takes every
  draw equal to the real number \<open>draw_for_mean p 20 (1/2) (- 1/40000)\<close>, which puts
  the mean of oxy there.
\<close>

theorem coi_not_finite:
  "\<exists>z r. simulate ''Resting State'' 20 (1 / 2) z = Inr r \<and> mean (oxy r) < 0 \<and>
         coi_denominator (oxy r) (deoxy r) = 0 \<and> coi r = NegInf"
proof -
  let ?p = "\<lparr>amp = 0.2, freq = 0.1\<rparr> :: task_profile"
  have p: "task_params ''Resting State'' = Some ?p" by (simp add: task_params_def)
  from const_run [OF p, of 20 "1 / 2" "- 1 / 40000"] obtain r where
    r: "simulate ''Resting State'' 20 (1 / 2)
          (const_draws (draw_for_mean ?p 20 (1 / 2) (- 1 / 40000))) = Inr r"
       "mean (oxy r) = - 1 / 40000"
       "mean (deoxy r) = - 0.6 * (- 1 / 40000) + 0.5 * drift_mean 20"
    by auto
  have de: "mean (deoxy r) = 3 / 200000" using r(3) by (simp add: drift_mean_20)
  have neg: "mean (oxy r) < 0" using r(2) by simp
  have den: "coi_denominator (oxy r) (deoxy r) = 0"
    using r(2) de by (simp add: coi_denominator_def)
  have "coi r = NegInf"
    using simulate_coi [OF r(1)] den neg by (simp add: coi_of_def np_divide_def)
  then show ?thesis using r(1) neg den by blast
qed

subsection \<open>C2\<close>

text \<open>
  C2. For a duration between 5 and 30, one of the five task names and a noise
  level between 0 and 0.5, the run succeeds and the time vector and both channels
  have exactly \<open>duration * 20\<close> entries.
\<close>

theorem lengths_ok:
  assumes "5 \<le> d" "d \<le> 30" "task \<in> set task_names" "0 \<le> nl" "nl \<le> 0.5"
  shows "\<exists>r. simulate task d nl z = Inr r \<and> length (time r) = nat (d * 20) \<and>
     length (oxy r) = nat (d * 20) \<and> length (deoxy r) = nat (d * 20)"
proof -
  from assms(3) obtain p where p: "task_params task = Some p"
    using task_params_Some by blast
  have n: "5 \<le> nat (d * 20)" using assms(1) by simp
  then obtain sm where sm: "smoothed_hrf (nat (d * 20)) = Inr sm" "length sm = nat (d * 20)"
    using smoothed_hrf_Inr by blast
  have d: "0 \<le> d" using assms(1) by simp
  show ?thesis
    unfolding simulate_Inr [OF p d sm(1)] using sm(2)
    by (simp add: gen_lengths)
qed

theorem lengths_ok_witness:
  "\<exists>r. simulate ''Visual Task'' 15 0 (\<lambda>_. 0) = Inr r \<and> length (time r) = 300 \<and>
     length (oxy r) = 300 \<and> length (deoxy r) = 300"
  using lengths_ok [of 15 "''Visual Task''" 0 "\<lambda>_. 0"] by (simp add: task_names_def)

subsection \<open>C3\<close>

text \<open>
  C3. For a duration between 5 and 30 the time vector starts at 0, ends at the
  duration exactly, and each entry is strictly smaller than the next one.
\<close>

theorem time_axis:
  assumes "5 \<le> d" "d \<le> 30" "task \<in> set task_names"
  shows "\<exists>r. simulate task d nl z = Inr r \<and> time r ! 0 = 0 \<and> last (time r) = real_of_int d \<and>
     (\<forall>i. Suc i < length (time r) \<longrightarrow> time r ! i < time r ! Suc i)"
proof -
  let ?n = "nat (d * 20)"
  let ?t = "linspace_pts 0 (real_of_int d) ?n"
  from valid_setup [OF assms(1,3)] obtain p sm where
    s: "task_params task = Some p" "smoothed_hrf ?n = Inr sm" "0 \<le> d" "100 \<le> ?n"
    by blast
  have n1: "1 < ?n" using s(4) by simp
  define q where "q = real_of_int d / real (?n - 1)"
  have q: "0 < q" using assms(1) n1 by (simp add: q_def)
  have nth: "?t ! i = real i * q" if "i < ?n" for i
    using linspace_pts_nth [OF n1 that, of 0 "real_of_int d"] by (simp add: q_def)
  have first: "?t ! 0 = 0" using nth [of 0] n1 by simp
  have "?t \<noteq> []" using n1 linspace_pts_length [of 0 "real_of_int d" ?n] by auto
  then have "last ?t = ?t ! (?n - 1)"
    by (simp add: last_conv_nth linspace_pts_length)
  also have "\<dots> = real (?n - 1) * q" using nth [of "?n - 1"] n1 by simp
  also have "\<dots> = real_of_int d" using n1 by (simp add: q_def)
  finally have lst: "last ?t = real_of_int d" .
  have mono: "?t ! i < ?t ! Suc i" if "Suc i < length ?t" for i
  proof -
    have i: "Suc i < ?n" using that by (simp add: linspace_pts_length)
    have "real i * q < real (Suc i) * q" using q by simp
    then show ?thesis using nth [of i] nth [of "Suc i"] i by simp
  qed
  show ?thesis
    unfolding simulate_Inr [OF s(1) s(3) s(2)] using first lst mono by simp
qed

theorem time_axis_witness:
  "\<exists>r. simulate ''Visual Task'' 15 0 (\<lambda>_. 0) = Inr r \<and> time r ! 0 = 0 \<and> last (time r) = 15 \<and>
     (\<forall>i. Suc i < length (time r) \<longrightarrow> time r ! i < time r ! Suc i)"
  using time_axis [of 15 "''Visual Task''" 0 "\<lambda>_. 0"] by (simp add: task_names_def)

subsection \<open>C4\<close>

text \<open>
  C4. With noise level 0, two runs with the same task and duration and arbitrary,
  different draws both succeed and give the same two channels.
\<close>

theorem zero_noise_deterministic:
  assumes "5 \<le> d" "d \<le> 30" "task \<in> set task_names"
  shows "\<exists>r r'. simulate task d 0 z = Inr r \<and> simulate task d 0 z' = Inr r' \<and>
           oxy r = oxy r' \<and> deoxy r = deoxy r'"
proof -
  from valid_setup [OF assms(1,3)] obtain p sm where
    s: "task_params task = Some p" "smoothed_hrf (nat (d * 20)) = Inr sm" "0 \<le> d"
       "length sm = nat (d * 20)"
    by blast
  have len: "length (signal0 p (linspace_pts 0 (real_of_int d) (nat (d * 20))) sm) = nat (d * 20)"
    using s(4) by (simp add: gen_lengths)
  show ?thesis
    unfolding simulate_Inr [OF s(1) s(3) s(2)]
    using len by (simp add: add_noise_zero randn_length)
qed

theorem zero_noise_deterministic_witness:
  "\<exists>r r'. simulate ''Motor Task'' 5 0 (\<lambda>_. 0) = Inr r \<and> simulate ''Motor Task'' 5 0 (\<lambda>_. 1) = Inr r' \<and>
           oxy r = oxy r' \<and> deoxy r = deoxy r'"
  using zero_noise_deterministic [of 5 "''Motor Task''" "\<lambda>_. 0" "\<lambda>_. 1"]
  by (simp add: task_names_def)

subsection \<open>C5\<close>

text \<open>
  C5. The interpretation is high exactly above 0.55, moderate exactly for
  \<open>0.45 < c \<le> 0.55\<close>, low exactly for \<open>c \<le> 0.45\<close>; in particular 0.56 is
  high, 0.50 is moderate and 0.45 is low. The three branches of the script print a
  success, a warning and an error message; the constructors name them after the
  oxygenation level they report.
\<close>

theorem classify_boundaries:
  "(classify c = HighOxygenation \<longleftrightarrow> c > 0.55) \<and>
   (classify c = ModerateOxygenation \<longleftrightarrow> 0.45 < c \<and> c \<le> 0.55) \<and>
   (classify c = LowOxygenation \<longleftrightarrow> c \<le> 0.45) \<and>
   classify 0.56 = HighOxygenation \<and> classify 0.50 = ModerateOxygenation \<and>
   classify 0.45 = LowOxygenation"
  by (auto simp: classify_def)

subsection \<open>C6\<close>

text \<open>
  C6. A task name outside the table makes the lookup \<open>task_params[task]\<close> raise
  (Python's KeyError) and no result is produced; with a name of the table and a
  duration between 5 and 30 the run returns a result whose three sequences are
  complete.
\<close>

theorem unknown_task_rejected:
  "(task \<notin> set task_names \<longrightarrow> 0 \<le> d \<longrightarrow> simulate task d nl z = Inl KeyError) \<and>
   (task \<in> set task_names \<longrightarrow> 5 \<le> d \<longrightarrow> d \<le> 30 \<longrightarrow>
      (\<exists>r. simulate task d nl z = Inr r \<and> length (time r) = nat (d * 20) \<and>
           length (oxy r) = nat (d * 20) \<and> length (deoxy r) = nat (d * 20)))"
proof (intro conjI impI)
  assume "task \<notin> set task_names" "0 \<le> d"
  then show "simulate task d nl z = Inl KeyError"
    using task_params_None [of task] by (simp add: simulate_def linspace_def)
next
  assume a: "task \<in> set task_names" "5 \<le> d" "d \<le> 30"
  from valid_setup [OF a(2) a(1)] obtain p sm where
    s: "task_params task = Some p" "smoothed_hrf (nat (d * 20)) = Inr sm" "0 \<le> d"
       "length sm = nat (d * 20)"
    by blast
  show "\<exists>r. simulate task d nl z = Inr r \<and> length (time r) = nat (d * 20) \<and>
           length (oxy r) = nat (d * 20) \<and> length (deoxy r) = nat (d * 20)"
    unfolding simulate_Inr [OF s(1) s(3) s(2)] using s(4) by (simp add: gen_lengths)
qed

theorem unknown_task_rejected_witness:
  "simulate ''Not A Task'' 10 0.1 (\<lambda>_. 0) = Inl KeyError \<and>
   (\<exists>r. simulate ''Visual Task'' 10 0.1 (\<lambda>_. 0) = Inr r \<and> length (time r) = 200 \<and>
           length (oxy r) = 200 \<and> length (deoxy r) = 200)"
  using unknown_task_rejected [of "''Not A Task''" 10 "0.1" "\<lambda>_. 0"]
        unknown_task_rejected [of "''Visual Task''" 10 "0.1" "\<lambda>_. 0"]
  by (simp add: task_names_def)

subsection \<open>C7\<close>

text \<open>
  C7. The response function is \<open>t^6 e^(-t) / 6! - 0.166 t^16 e^(-t) / 16!\<close> with
  \<open>6! = 720\<close> and \<open>16! = 20922789888000\<close>, both divisors being non-zero; the run
  applies it to each point of a grid whose points all lie in \<open>[0, 30]\<close>.
\<close>

theorem hrf_formula:
  "hrf t = t ^ 6 * exp (- t) / 720 - 0.166 * (t ^ 16 * exp (- t)) / 20922789888000 \<and>
   length (base_hrf n) = n \<and>
   (\<forall>i<n. base_hrf n ! i = hrf (linspace_pts 0 30 n ! i) \<and>
           0 \<le> linspace_pts 0 30 n ! i \<and> linspace_pts 0 30 n ! i \<le> 30)"
proof (intro conjI allI impI)
  show "hrf t = t ^ 6 * exp (- t) / 720 - 0.166 * (t ^ 16 * exp (- t)) / 20922789888000"
    by (simp add: hrf_def hrf_gen_def fact6 fact16)
  show "length (base_hrf n) = n" by (rule base_hrf_length)
next
  fix i assume i: "i < n"
  show "base_hrf n ! i = hrf (linspace_pts 0 30 n ! i)" using i by (rule base_hrf_nth)
  have "linspace_pts 0 30 n ! i \<in> set (linspace_pts 0 30 n)"
    using i by (simp add: linspace_pts_length)
  then have b: "0 \<le> linspace_pts 0 30 n ! i \<and> linspace_pts 0 30 n ! i \<le> 30"
    using linspace_pts_bounds [of 0 30] by simp
  show "0 \<le> linspace_pts 0 30 n ! i" using b by simp
  show "linspace_pts 0 30 n ! i \<le> 30" using b by simp
qed

theorem hrf_formula_witness:
  "hrf 1 = 1 ^ 6 * exp (- 1) / 720 - 0.166 * (1 ^ 16 * exp (- 1)) / 20922789888000 \<and>
   length (base_hrf 100) = 100 \<and> (0::nat) < 100 \<and>
   base_hrf 100 ! 0 = hrf (linspace_pts 0 30 100 ! 0) \<and>
   0 \<le> linspace_pts 0 30 100 ! 0 \<and> linspace_pts 0 30 100 ! 0 \<le> 30"
  using hrf_formula [of 1 100] by simp

subsection \<open>C8\<close>

text \<open>
  C8. For a duration between 5 and 30, a task of the table with profile \<open>p\<close> and
  \<open>N = duration * 20\<close>, the run evaluates the response function on the \<open>N\<close> evenly
  spaced points \<open>30 j / (N - 1)\<close> of \<open>[0, 30]\<close> and smooths it with the uniform kernel
  of length 5: the smoothed value at \<open>i\<close> is one fifth of the sum of the response at
  the grid points \<open>i-2, \<dots>, i+2\<close>, with zero for the indices outside \<open>0, \<dots>, N-1\<close>,
  and it is this value that enters sample \<open>i\<close> of both channels of the run, next
  to the oscillation of the task, the noise and the drift.
\<close>

theorem moving_average:
  assumes "5 \<le> d" "d \<le> 30" "task_params task = Some p"
  shows "\<exists>r sm. simulate task d nl z = Inr r \<and>
     base_hrf (nat (d * 20)) = map hrf (spec_grid (nat (d * 20))) \<and>
     smoothed_hrf (nat (d * 20)) = Inr sm \<and> length sm = nat (d * 20) \<and>
     (\<forall>i<nat (d * 20).
        sm ! i = spec_smoothed (nat (d * 20)) i \<and>
        oxy r ! i = amp p * sin (2 * pi * freq p * time r ! i)
                      + spec_smoothed (nat (d * 20)) i + nl * z i
                      + 0.5 * sin (0.1 * pi * time r ! i) \<and>
        deoxy r ! i = - 0.6 * (amp p * sin (2 * pi * freq p * time r ! i)
                      + spec_smoothed (nat (d * 20)) i + nl * z i)
                      + 0.2 * sin (0.1 * pi * time r ! i))"
proof -
  let ?n = "nat (d * 20)"
  let ?t = "linspace_pts 0 (real_of_int d) ?n"
  have n5: "5 \<le> ?n" and n1: "1 < ?n" and d0: "0 \<le> d" using assms(1) by simp_all
  obtain sm where sm: "smoothed_hrf ?n = Inr sm" "length sm = ?n"
    using smoothed_hrf_Inr [OF n5] by auto
  let ?sig = "signal0 p ?t sm"
  let ?noisy = "add_noise ?sig nl (randn z ?n)"
  have t: "length ?t = ?n" by (rule linspace_pts_length)
  have l0: "length ?sig = ?n" using sm(2) by (simp add: gen_lengths)
  have ls: "length ?noisy = ?n" using l0 by (simp add: gen_lengths)
  have b: "base_hrf ?n = map hrf (spec_grid ?n)"
    using n1 by (simp add: base_hrf_def linspace_spec_grid)
  have pt: "sm ! i = spec_smoothed ?n i \<and>
        oxy_of ?noisy ?t ! i = amp p * sin (2 * pi * freq p * ?t ! i)
                      + spec_smoothed ?n i + nl * z i + 0.5 * sin (0.1 * pi * ?t ! i) \<and>
        deoxy_of ?noisy ?t ! i = - 0.6 * (amp p * sin (2 * pi * freq p * ?t ! i)
                      + spec_smoothed ?n i + nl * z i) + 0.2 * sin (0.1 * pi * ?t ! i)"
    if i: "i < ?n" for i
  proof -
    have s: "sm ! i = spec_smoothed ?n i" using smoothed_hrf_spec [OF n5 sm(1) i] .
    have "?sig ! i = amp p * sin (2 * pi * freq p * ?t ! i) + sm ! i"
      using i t sm(2) by (simp add: signal0_nth)
    moreover have "?noisy ! i = ?sig ! i + nl * randn z ?n ! i"
      using i l0 by (simp add: add_noise_nth randn_length)
    moreover have "randn z ?n ! i = z i" using i by (rule randn_nth)
    ultimately have n: "?noisy ! i = amp p * sin (2 * pi * freq p * ?t ! i)
                      + spec_smoothed ?n i + nl * z i"
      using s by simp
    have "oxy_of ?noisy ?t ! i = ?noisy ! i + 0.5 * sin (0.1 * pi * ?t ! i)"
      using i ls t by (simp add: oxy_of_nth)
    moreover have "deoxy_of ?noisy ?t ! i = - 0.6 * ?noisy ! i + 0.2 * sin (0.1 * pi * ?t ! i)"
      using i ls t by (simp add: deoxy_of_nth)
    ultimately show ?thesis using s n by simp
  qed
  show ?thesis
    unfolding simulate_Inr [OF assms(3) d0 sm(1)] using b sm pt by simp
qed

theorem moving_average_witness:
  "\<exists>r sm. simulate ''Visual Task'' 5 0.1 (const_draws 1) = Inr r \<and>
     base_hrf 100 = map hrf (spec_grid 100) \<and>
     smoothed_hrf 100 = Inr sm \<and> length sm = 100 \<and> (42::nat) < 100 \<and>
     sm ! 42 = spec_smoothed 100 42 \<and>
     oxy r ! 42 = 1.0 * sin (2 * pi * 0.25 * time r ! 42) + spec_smoothed 100 42 + 0.1 * 1
                    + 0.5 * sin (0.1 * pi * time r ! 42) \<and>
     deoxy r ! 42 = - 0.6 * (1.0 * sin (2 * pi * 0.25 * time r ! 42) + spec_smoothed 100 42
                    + 0.1 * 1) + 0.2 * sin (0.1 * pi * time r ! 42)"
proof -
  have p: "task_params ''Visual Task'' = Some \<lparr>amp = 1.0, freq = 0.25\<rparr>"
    by (simp add: task_params_def)
  from moving_average [of 5, OF _ _ p, of "0.1" "const_draws 1"] obtain r sm where
    a: "simulate ''Visual Task'' 5 0.1 (const_draws 1) = Inr r"
       "base_hrf 100 = map hrf (spec_grid 100)"
       "smoothed_hrf 100 = Inr sm" "length sm = 100" and
    b: "\<forall>i<100.
        sm ! i = spec_smoothed 100 i \<and>
        oxy r ! i = 1.0 * sin (2 * pi * 0.25 * time r ! i) + spec_smoothed 100 i
                      + 0.1 * const_draws 1 i + 0.5 * sin (0.1 * pi * time r ! i) \<and>
        deoxy r ! i = - 0.6 * (1.0 * sin (2 * pi * 0.25 * time r ! i) + spec_smoothed 100 i
                      + 0.1 * const_draws 1 i) + 0.2 * sin (0.1 * pi * time r ! i)"
    by auto
  have "sm ! 42 = spec_smoothed 100 42 \<and>
     oxy r ! 42 = 1.0 * sin (2 * pi * 0.25 * time r ! 42) + spec_smoothed 100 42 + 0.1 * 1
                    + 0.5 * sin (0.1 * pi * time r ! 42) \<and>
     deoxy r ! 42 = - 0.6 * (1.0 * sin (2 * pi * 0.25 * time r ! 42) + spec_smoothed 100 42
                    + 0.1 * 1) + 0.2 * sin (0.1 * pi * time r ! 42)"
    using b [rule_format, of 42] by (simp add: const_draws_def)
  then show ?thesis using a by (intro exI [of _ r] exI [of _ sm]) simp
qed


subsection \<open>C9\<close>

text \<open>
  C9. With noise level 0, for a task of the table with profile \<open>p\<close> and a duration
  between 5 and 30, each sample of the two channels is given by the closed form
  in the amplitude and frequency of \<open>p\<close>, the time vector and the smoothed response.
\<close>

theorem closed_form:
  assumes "5 \<le> d" "d \<le> 30" "task_params task = Some p"
  shows "\<exists>r sm. simulate task d 0 z = Inr r \<and> smoothed_hrf (nat (d * 20)) = Inr sm \<and>
     (\<forall>i<nat (d * 20).
        oxy r ! i = amp p * sin (2 * pi * freq p * time r ! i) + sm ! i
                      + 0.5 * sin (0.1 * pi * time r ! i) \<and>
        deoxy r ! i = - 0.6 * (amp p * sin (2 * pi * freq p * time r ! i) + sm ! i)
                      + 0.2 * sin (0.1 * pi * time r ! i))"
proof -
  let ?n = "nat (d * 20)"
  let ?t = "linspace_pts 0 (real_of_int d) ?n"
  have "task \<in> set task_names" using assms(3) task_params_Some by blast
  from valid_setup [OF assms(1) this] assms(3) obtain sm where
    s: "smoothed_hrf ?n = Inr sm" "0 \<le> d" "length sm = ?n"
    by auto
  have t: "length ?t = ?n" by (rule linspace_pts_length)
  have s0: "length (signal0 p ?t sm) = ?n" using s(3) by (simp add: gen_lengths)
  have "oxy_of (signal0 p ?t sm) ?t ! i =
          amp p * sin (2 * pi * freq p * ?t ! i) + sm ! i + 0.5 * sin (0.1 * pi * ?t ! i) \<and>
        deoxy_of (signal0 p ?t sm) ?t ! i =
          - 0.6 * (amp p * sin (2 * pi * freq p * ?t ! i) + sm ! i)
          + 0.2 * sin (0.1 * pi * ?t ! i)" if "i < ?n" for i
    using that s0 t s(3) by (simp add: oxy_of_nth deoxy_of_nth signal0_nth)
  then show ?thesis
    unfolding simulate_Inr [OF assms(3) s(2) s(1)]
    using s(1) s0 by (simp add: add_noise_zero randn_length)
qed

theorem closed_form_witness:
  "\<exists>r sm. simulate ''Visual Task'' 15 0 (\<lambda>_. 1) = Inr r \<and> smoothed_hrf 300 = Inr sm \<and>
     oxy r ! 0 = 1.0 * sin (2 * pi * 0.25 * time r ! 0) + sm ! 0
                   + 0.5 * sin (0.1 * pi * time r ! 0) \<and>
     deoxy r ! 0 = - 0.6 * (1.0 * sin (2 * pi * 0.25 * time r ! 0) + sm ! 0)
                   + 0.2 * sin (0.1 * pi * time r ! 0)"
proof -
  have "task_params ''Visual Task'' = Some \<lparr>amp = 1.0, freq = 0.25\<rparr>"
    by (simp add: task_params_def)
  from closed_form [of 15, OF _ _ this, of "\<lambda>_. 1"] obtain r sm where
    "simulate ''Visual Task'' 15 0 (\<lambda>_. 1) = Inr r" "smoothed_hrf 300 = Inr sm"
    "\<forall>i<300. oxy r ! i = 1.0 * sin (2 * pi * 0.25 * time r ! i) + sm ! i
                   + 0.5 * sin (0.1 * pi * time r ! i) \<and>
     deoxy r ! i = - 0.6 * (1.0 * sin (2 * pi * 0.25 * time r ! i) + sm ! i)
                   + 0.2 * sin (0.1 * pi * time r ! i)"
    by auto
  then show ?thesis by (intro exI [of _ r] exI [of _ sm]) simp
qed

end
